theory Spec2Isabelle
  imports Complex_Main
begin

section \<open>Exceptions\<close>

text \<open>
  The Python exceptions that the callbacks of \<^verbatim>\<open>rl/callbacks.py\<close> can raise themselves.
  \<open>Exception\<close> stands for any other exception, raised by a foreign callback method.
\<close>

datatype error =
    AttributeError
  | TypeError
  | KeyError
  | IndexError
  | ValueError
  | ZeroDivisionError
  | AssertionError
  | Exception string

section \<open>CallbackList: dispatch over two naming conventions\<close>

text \<open>
  The eight method names that \<^verbatim>\<open>CallbackList\<close> looks up on a callback object: four of
  the episode/step convention, four of the Keras epoch/batch convention.
\<close>

datatype method_name =
    On_episode_begin | On_epoch_begin
  | On_episode_end | On_epoch_end
  | On_step_begin | On_batch_begin
  | On_step_end | On_batch_end

text \<open>
  A callback method takes the index (episode or step), the log dictionary and the state of
  the world, and either raises or returns the new state of the world. The log dictionary is
  handed to every callback as it is: it is a value of an arbitrary type \<open>'l\<close>.
\<close>

type_synonym ('l, 'w) handler = "int \<Rightarrow> 'l \<Rightarrow> 'w \<Rightarrow> error + 'w"

text \<open>
  What \<^verbatim>\<open>getattr(callback, name, None)\<close> can find: nothing, an attribute that is not
  callable, or a method.
\<close>

datatype ('l, 'w) attr = Absent | Not_callable | Method "('l, 'w) handler"

text \<open>A callback object is its attribute lookup.\<close>

type_synonym ('l, 'w) callback = "method_name \<Rightarrow> ('l, 'w) attr"

text \<open>\<^verbatim>\<open>callable(getattr(callback, name, None))\<close>\<close>

fun callable :: "('l, 'w) attr \<Rightarrow> bool" where
  "callable (Method f) = True"
| "callable Absent = False"
| "callable Not_callable = False"

text \<open>
  \<^verbatim>\<open>callback.name(index, logs=logs)\<close>: the attribute lookup raises \<^verbatim>\<open>AttributeError\<close>
  when there is no such attribute, the call raises \<^verbatim>\<open>TypeError\<close> when the attribute is
  not callable.
\<close>

fun call_method :: "('l, 'w) attr \<Rightarrow> ('l, 'w) handler" where
  "call_method Absent idx logs w = Inl AttributeError"
| "call_method Not_callable idx logs w = Inl TypeError"
| "call_method (Method f) idx logs w = f idx logs w"

text \<open>
  An invocation is recorded as the name of the method entered and the two arguments it
  was given. The record is a ghost of the model: it is what lets a theorem say which method
  of which callback ran. A lookup that fails enters no method and records nothing.
\<close>

type_synonym 'l invocation = "method_name \<times> int \<times> 'l"

fun invoke :: "('l, 'w) callback \<Rightarrow> method_name \<Rightarrow> int \<Rightarrow> 'l \<Rightarrow> 'w
    \<Rightarrow> 'l invocation list \<times> (error + 'w)" where
  "invoke callback name idx logs w =
     (case callback name of
        Method f \<Rightarrow> ([(name, idx, logs)], f idx logs w)
      | a \<Rightarrow> ([], call_method a idx logs w))"

text \<open>
  The body of each of the four loops:
  \<^verbatim>\<open>
  if callable(getattr(callback, new, None)):
      callback.new(index, logs=logs)
  else:
      callback.legacy(index, logs=logs)
  \<close>
\<close>

definition dispatch_one :: "method_name \<Rightarrow> method_name \<Rightarrow> ('l, 'w) callback \<Rightarrow> int \<Rightarrow> 'l \<Rightarrow> 'w
    \<Rightarrow> 'l invocation list \<times> (error + 'w)" where
  "dispatch_one new legacy callback idx logs w =
     (if callable (callback new) then invoke callback new idx logs w
      else invoke callback legacy idx logs w)"

text \<open>
  \<^verbatim>\<open>for callback in self.callbacks: ...\<close>: an exception leaves the loop, so the callbacks
  behind the one that raised are not reached.
\<close>

fun dispatch :: "method_name \<Rightarrow> method_name \<Rightarrow> ('l, 'w) callback list \<Rightarrow> int \<Rightarrow> 'l \<Rightarrow> 'w
    \<Rightarrow> 'l invocation list \<times> (error + 'w)" where
  "dispatch new legacy [] idx logs w = ([], Inr w)"
| "dispatch new legacy (callback # callbacks) idx logs w =
     (case dispatch_one new legacy callback idx logs w of
        (calls, Inl e) \<Rightarrow> (calls, Inl e)
      | (calls, Inr w') \<Rightarrow>
          (case dispatch new legacy callbacks idx logs w' of
             (calls', r) \<Rightarrow> (calls @ calls', r)))"

definition cl_on_episode_begin :: "('l, 'w) callback list \<Rightarrow> int \<Rightarrow> 'l \<Rightarrow> 'w
    \<Rightarrow> 'l invocation list \<times> (error + 'w)" where
  "cl_on_episode_begin callbacks episode logs w =
     dispatch On_episode_begin On_epoch_begin callbacks episode logs w"

definition cl_on_episode_end :: "('l, 'w) callback list \<Rightarrow> int \<Rightarrow> 'l \<Rightarrow> 'w
    \<Rightarrow> 'l invocation list \<times> (error + 'w)" where
  "cl_on_episode_end callbacks episode logs w =
     dispatch On_episode_end On_epoch_end callbacks episode logs w"

definition cl_on_step_begin :: "('l, 'w) callback list \<Rightarrow> int \<Rightarrow> 'l \<Rightarrow> 'w
    \<Rightarrow> 'l invocation list \<times> (error + 'w)" where
  "cl_on_step_begin callbacks step logs w =
     dispatch On_step_begin On_batch_begin callbacks step logs w"

definition cl_on_step_end :: "('l, 'w) callback list \<Rightarrow> int \<Rightarrow> 'l \<Rightarrow> 'w
    \<Rightarrow> 'l invocation list \<times> (error + 'w)" where
  "cl_on_step_end callbacks step logs w =
     dispatch On_step_end On_batch_end callbacks step logs w"

text \<open>The four events of the list, with the names each one looks up.\<close>

datatype event_kind = Episode_begin | Episode_end | Step_begin | Step_end

fun new_name :: "event_kind \<Rightarrow> method_name" where
  "new_name Episode_begin = On_episode_begin"
| "new_name Episode_end = On_episode_end"
| "new_name Step_begin = On_step_begin"
| "new_name Step_end = On_step_end"

fun legacy_name :: "event_kind \<Rightarrow> method_name" where
  "legacy_name Episode_begin = On_epoch_begin"
| "legacy_name Episode_end = On_epoch_end"
| "legacy_name Step_begin = On_batch_begin"
| "legacy_name Step_end = On_batch_end"

fun dispatch_event :: "event_kind \<Rightarrow> ('l, 'w) callback list \<Rightarrow> int \<Rightarrow> 'l \<Rightarrow> 'w
    \<Rightarrow> 'l invocation list \<times> (error + 'w)" where
  "dispatch_event Episode_begin = cl_on_episode_begin"
| "dispatch_event Episode_end = cl_on_episode_end"
| "dispatch_event Step_begin = cl_on_step_begin"
| "dispatch_event Step_end = cl_on_step_end"


text \<open>
  Three callbacks for concrete runs: one of each convention, both only counting calls, and
  one without any of the eight methods.
\<close>

definition counting :: "(int, nat) handler" where
  "counting idx logs w = Inr (Suc w)"

definition new_style :: "(int, nat) callback" where
  "new_style name =
     (if name \<in> {On_episode_begin, On_episode_end, On_step_begin, On_step_end}
      then Method counting else Absent)"

definition keras_style :: "(int, nat) callback" where
  "keras_style name =
     (if name \<in> {On_epoch_begin, On_epoch_end, On_batch_begin, On_batch_end}
      then Method counting else Absent)"

definition bare :: "(int, nat) callback" where
  "bare name = Absent"

section \<open>Numbers, numpy reductions and string formatting\<close>

text \<open>
  A Python or numpy float is modelled by its exact value: a rational number, or NaN.
  Arithmetic is exact (the rounding of IEEE arithmetic, infinities, overflow and the sign
  of zero are not modelled); on the dyadic values of the concrete runs below IEEE
  arithmetic is exact as well.
\<close>

datatype pyfloat = Fin rat | NaN

fun isnan :: "pyfloat \<Rightarrow> bool" where
  "isnan NaN = True"
| "isnan (Fin q) = False"

text \<open>The values of a sequence that are not NaN.\<close>

fun fins :: "pyfloat list \<Rightarrow> rat list" where
  "fins [] = []"
| "fins (Fin q # xs) = q # fins xs"
| "fins (NaN # xs) = fins xs"

text \<open>
  \<^verbatim>\<open>np.sum\<close>, \<^verbatim>\<open>np.mean\<close>, \<^verbatim>\<open>np.min\<close>, \<^verbatim>\<open>np.max\<close> over all elements. A NaN element makes
  the result NaN. The mean of nothing is NaN (numpy warns, and the warning is not an
  error where the logger calls it); the minimum and the maximum of nothing raise
  \<^verbatim>\<open>ValueError\<close>.
\<close>

definition np_sum :: "pyfloat list \<Rightarrow> pyfloat" where
  "np_sum xs = (if list_ex isnan xs then NaN else Fin (sum_list (fins xs)))"

definition np_mean :: "pyfloat list \<Rightarrow> pyfloat" where
  "np_mean xs =
     (if xs = [] \<or> list_ex isnan xs then NaN
      else Fin (sum_list (fins xs) / of_nat (length xs)))"

definition np_min :: "pyfloat list \<Rightarrow> error + pyfloat" where
  "np_min xs =
     (if xs = [] then Inl ValueError
      else if list_ex isnan xs then Inr NaN
      else Inr (Fin (fold min (tl (fins xs)) (hd (fins xs)))))"

definition np_max :: "pyfloat list \<Rightarrow> error + pyfloat" where
  "np_max xs =
     (if xs = [] then Inl ValueError
      else if list_ex isnan xs then Inr NaN
      else Inr (Fin (fold max (tl (fins xs)) (hd (fins xs)))))"

text \<open>
  \<^verbatim>\<open>np.nanmean\<close> of one column: the mean of the values that are not NaN. When there is
  none, numpy gives NaN and warns (\<open>RuntimeWarning: Mean of empty slice\<close>): that case is
  \<open>None\<close>, and each caller says what the warning does there.
\<close>

definition np_nanmean :: "pyfloat list \<Rightarrow> pyfloat option" where
  "np_nanmean xs =
     (if fins xs = [] then None
      else Some (Fin (sum_list (fins xs) / of_nat (length (fins xs)))))"

text \<open>
  A list of rows is a two-dimensional array when it is not empty and its rows have one
  length. \<^verbatim>\<open>np.array(rows)[:, idx]\<close> is the column \<open>idx\<close> of such an array. For anything
  else (no rows, rows of different lengths, which numpy keeps as a one-dimensional array
  of objects, or a column that is not there) the indexing raises \<^verbatim>\<open>IndexError\<close>.
\<close>

definition is_2d :: "'a list list \<Rightarrow> bool" where
  "is_2d rows = (rows \<noteq> [] \<and> list_all (\<lambda>r. length r = length (hd rows)) rows)"

definition column :: "'a list list \<Rightarrow> nat \<Rightarrow> 'a list" where
  "column rows idx = map (\<lambda>r. r ! idx) rows"

definition np_column :: "pyfloat list list \<Rightarrow> nat \<Rightarrow> error + pyfloat list" where
  "np_column rows idx =
     (if is_2d rows \<and> idx < length (hd rows) then Inr (column rows idx)
      else Inl IndexError)"

text \<open>
  \<^verbatim>\<open>np.concatenate(arrays)\<close> of a sequence of one-dimensional arrays; numpy refuses an
  empty sequence.
\<close>

definition np_concatenate :: "pyfloat list list \<Rightarrow> error + pyfloat list" where
  "np_concatenate arrays = (if arrays = [] then Inl ValueError else Inr (concat arrays))"

text \<open>
  The elements that a reduction over a list of equally long rows runs over. Rows of
  different lengths do not make an array of numbers, and the reduction (or the formatting
  of its result) raises; the model says \<^verbatim>\<open>ValueError\<close>.
\<close>

definition np_elements :: "pyfloat list list \<Rightarrow> error + pyfloat list" where
  "np_elements rows =
     (if rows = [] \<or> is_2d rows then Inr (concat rows) else Inl ValueError)"

text \<open>
  Decimal digits of an integer that is not negative, and \<^verbatim>\<open>'{}'.format(i)\<close> for any
  integer.
\<close>

definition digit :: "int \<Rightarrow> char" where
  "digit n = ''0123456789'' ! nat n"

function digits :: "int \<Rightarrow> string" where
  "digits n = (if n < 10 then [digit n] else digits (n div 10) @ [digit (n mod 10)])"
  by pat_completeness auto
termination
  by (relation "measure nat") auto

declare digits.simps [simp del]

definition str_int :: "int \<Rightarrow> string" where
  "str_int i = (if i < 0 then ''-'' @ digits (- i) else digits i)"

text \<open>
  Rounding to the nearest integer, ties to the even one: what Python's float formatting
  does with the exact value of the float.
\<close>

definition round_half_even :: "rat \<Rightarrow> int" where
  "round_half_even q =
     (let f = \<lfloor>q\<rfloor>; r = q - of_int f
      in if r < 1 / 2 then f
         else if 1 / 2 < r then f + 1
         else if even f then f else f + 1)"

text \<open>
  \<^verbatim>\<open>'{:.df}'.format(x)\<close>: sign, integer part, and \<open>d\<close> decimals behind a point (no point
  when \<open>d = 0\<close>); \<^verbatim>\<open>nan\<close> for NaN.
\<close>

definition zero_pad :: "nat \<Rightarrow> string \<Rightarrow> string" where
  "zero_pad d s = replicate (d - length s) (CHR ''0'') @ s"

definition format_f :: "nat \<Rightarrow> pyfloat \<Rightarrow> string" where
  "format_f d x =
     (case x of
        NaN \<Rightarrow> ''nan''
      | Fin q \<Rightarrow>
          (let n = round_half_even (\<bar>q\<bar> * 10 ^ d)
           in (if q < 0 then ''-'' else [])
              @ digits (n div 10 ^ d)
              @ (if d = 0 then [] else ''.'' @ zero_pad d (digits (n mod 10 ^ d)))))"

section \<open>Raising and returning\<close>

text \<open>
  A computation without effect on the logger either raises or gives a value; \<open>and_then\<close>
  runs the next statement only when the one before did not raise.
\<close>

definition and_then :: "error + 'a \<Rightarrow> ('a \<Rightarrow> error + 'b) \<Rightarrow> error + 'b" where
  "and_then m f = (case m of Inl e \<Rightarrow> Inl e | Inr x \<Rightarrow> f x)"

text \<open>\<^verbatim>\<open>d[key]\<close> raises \<^verbatim>\<open>KeyError\<close> for a key that is not in the dictionary.\<close>

definition lookup :: "('k \<rightharpoonup> 'v) \<Rightarrow> 'k \<Rightarrow> error + 'v" where
  "lookup d key = (case d key of None \<Rightarrow> Inl KeyError | Some v \<Rightarrow> Inr v)"

text \<open>\<^verbatim>\<open>self.name\<close> raises \<^verbatim>\<open>AttributeError\<close> for an attribute that was never set.\<close>

definition attribute :: "'a option \<Rightarrow> error + 'a" where
  "attribute a = (case a of None \<Rightarrow> Inl AttributeError | Some v \<Rightarrow> Inr v)"

text \<open>
  A method that changes its object either returns, leaving the object in a new state, or
  raises, leaving the object in the state it had reached by then.
\<close>

datatype 's outcome = Raises error 's | Returns 's

fun state_of :: "'s outcome \<Rightarrow> 's" where
  "state_of (Raises e s) = s"
| "state_of (Returns s) = s"

section \<open>TrainEpisodeLogger\<close>

text \<open>
  The log dictionary of a step-end, with the five keys the loggers read. \<open>None\<close> is a key
  that is missing. The observation is a sequence of one-dimensional arrays, the action a
  number.
\<close>

record step_logs =
  log_episode :: "int option"
  log_observation :: "pyfloat list list option"
  log_reward :: "pyfloat option"
  log_action :: "pyfloat option"
  log_metrics :: "pyfloat list option"

text \<open>
  The object: the five dictionaries indexed by the episode, the two attributes that
  \<^verbatim>\<open>on_train_begin\<close> sets, and the lines printed so far.
\<close>

record train_episode_logger =
  episode_start :: "int \<rightharpoonup> rat"
  observations :: "int \<rightharpoonup> pyfloat list list"
  rewards :: "int \<rightharpoonup> pyfloat list"
  actions :: "int \<rightharpoonup> pyfloat list"
  metrics :: "int \<rightharpoonup> pyfloat list list"
  train_start :: "rat option"
  metrics_names :: "string list option"
  stdout :: "string list"

text \<open>\<^verbatim>\<open>__init__\<close>\<close>

definition tel_init :: train_episode_logger where
  "tel_init =
     \<lparr>episode_start = Map.empty, observations = Map.empty, rewards = Map.empty,
      actions = Map.empty, metrics = Map.empty,
      train_start = None, metrics_names = None, stdout = []\<rparr>"

text \<open>
  The four introductory messages; \<open>None\<close> is Python's \<^verbatim>\<open>None\<close> for a target that is not
  set.
\<close>

definition training_message :: "int option \<Rightarrow> int option \<Rightarrow> string" where
  "training_message nb_episodes nb_steps =
     (case (nb_episodes, nb_steps) of
        (None, None) \<Rightarrow>
          ''Training indefinitely since `nb_steps` and `nb_episodes` are both `None` ...''
      | (None, Some n) \<Rightarrow> ''Training for '' @ str_int n @ '' steps ...''
      | (Some m, None) \<Rightarrow> ''Training for '' @ str_int m @ '' episodes ...''
      | (Some m, Some n) \<Rightarrow>
          ''Training for '' @ str_int m @ '' episodes or '' @ str_int n
          @ '' steps, whichever comes first ...'')"

text \<open>
  \<^verbatim>\<open>on_train_begin\<close>. The reading of the timer, the metric names of the model and the two
  targets of \<^verbatim>\<open>self.params\<close> are arguments.
\<close>

definition tel_on_train_begin ::
    "train_episode_logger \<Rightarrow> rat \<Rightarrow> string list \<Rightarrow> int option \<Rightarrow> int option
     \<Rightarrow> train_episode_logger" where
  "tel_on_train_begin s now names nb_episodes nb_steps =
     s\<lparr>train_start := Some now, metrics_names := Some names,
       stdout := stdout s @ [training_message nb_episodes nb_steps]\<rparr>"

text \<open>\<^verbatim>\<open>on_train_end\<close>\<close>

definition tel_on_train_end :: "train_episode_logger \<Rightarrow> rat \<Rightarrow> train_episode_logger outcome" where
  "tel_on_train_end s now =
     (case train_start s of
        None \<Rightarrow> Raises AttributeError s
      | Some t \<Rightarrow>
          Returns (s\<lparr>stdout := stdout s
            @ [''done, took '' @ format_f 3 (Fin (now - t)) @ '' seconds'']\<rparr>))"

text \<open>\<^verbatim>\<open>on_episode_begin\<close>\<close>

definition tel_on_episode_begin :: "train_episode_logger \<Rightarrow> int \<Rightarrow> rat \<Rightarrow> train_episode_logger" where
  "tel_on_episode_begin s episode now =
     s\<lparr>episode_start := (episode_start s)(episode \<mapsto> now),
       observations := (observations s)(episode \<mapsto> []),
       rewards := (rewards s)(episode \<mapsto> []),
       actions := (actions s)(episode \<mapsto> []),
       metrics := (metrics s)(episode \<mapsto> [])\<rparr>"

text \<open>The next statement of a method runs when the one before it returned.\<close>

fun then_call :: "'s outcome \<Rightarrow> ('s \<Rightarrow> 's outcome) \<Rightarrow> 's outcome" where
  "then_call (Raises e s) f = Raises e s"
| "then_call (Returns s) f = f s"

text \<open>
  The four statements of \<^verbatim>\<open>on_step_end\<close>. Each looks the list of the episode up before
  it evaluates its argument, and appends in place.
\<close>

definition append_observation ::
    "int \<Rightarrow> step_logs \<Rightarrow> train_episode_logger \<Rightarrow> train_episode_logger outcome" where
  "append_observation episode logs s =
     (case observations s episode of None \<Rightarrow> Raises KeyError s | Some os \<Rightarrow>
      case log_observation logs of None \<Rightarrow> Raises KeyError s | Some arrays \<Rightarrow>
      case np_concatenate arrays of Inl e \<Rightarrow> Raises e s | Inr flat \<Rightarrow>
      Returns (s\<lparr>observations := (observations s)(episode \<mapsto> os @ [flat])\<rparr>))"

definition append_reward ::
    "int \<Rightarrow> step_logs \<Rightarrow> train_episode_logger \<Rightarrow> train_episode_logger outcome" where
  "append_reward episode logs s =
     (case rewards s episode of None \<Rightarrow> Raises KeyError s | Some rs \<Rightarrow>
      case log_reward logs of None \<Rightarrow> Raises KeyError s | Some r \<Rightarrow>
      Returns (s\<lparr>rewards := (rewards s)(episode \<mapsto> rs @ [r])\<rparr>))"

definition append_action ::
    "int \<Rightarrow> step_logs \<Rightarrow> train_episode_logger \<Rightarrow> train_episode_logger outcome" where
  "append_action episode logs s =
     (case actions s episode of None \<Rightarrow> Raises KeyError s | Some acts \<Rightarrow>
      case log_action logs of None \<Rightarrow> Raises KeyError s | Some a \<Rightarrow>
      Returns (s\<lparr>actions := (actions s)(episode \<mapsto> acts @ [a])\<rparr>))"

definition append_metrics ::
    "int \<Rightarrow> step_logs \<Rightarrow> train_episode_logger \<Rightarrow> train_episode_logger outcome" where
  "append_metrics episode logs s =
     (case metrics s episode of None \<Rightarrow> Raises KeyError s | Some ms \<Rightarrow>
      case log_metrics logs of None \<Rightarrow> Raises KeyError s | Some m \<Rightarrow>
      Returns (s\<lparr>metrics := (metrics s)(episode \<mapsto> ms @ [m])\<rparr>))"

text \<open>
  \<^verbatim>\<open>on_step_end\<close>: the episode is read from the log, then the four appends run one
  after the other. An append that raises leaves the appends before it done.
\<close>

definition tel_on_step_end ::
    "train_episode_logger \<Rightarrow> int \<Rightarrow> step_logs \<Rightarrow> train_episode_logger outcome" where
  "tel_on_step_end s step logs =
     (case log_episode logs of
        None \<Rightarrow> Raises KeyError s
      | Some episode \<Rightarrow>
          then_call (then_call (then_call
            (append_observation episode logs s)
            (append_reward episode logs))
            (append_action episode logs))
            (append_metrics episode logs))"

text \<open>
  The loop that formats the metrics of an episode. Inside it every warning is an error,
  so the warning of \<^verbatim>\<open>np.nanmean\<close> for a column without a value is caught, and the
  value of that metric is the string \<^verbatim>\<open>--\<close>; for any other column it is the mean.
  \<open>idx\<close> is the index \<^verbatim>\<open>enumerate\<close> has reached. The result is the list
  \<^verbatim>\<open>metrics_variables\<close>, as pairs of a name and its value.
\<close>

datatype metric_value = Mean pyfloat | Placeholder

fun metrics_loop ::
    "pyfloat list list \<Rightarrow> nat \<Rightarrow> string list \<Rightarrow> error + (string \<times> metric_value) list" where
  "metrics_loop ms idx [] = Inr []"
| "metrics_loop ms idx (name # names) =
     and_then (np_column ms idx) (\<lambda>column.
     and_then (metrics_loop ms (Suc idx) names) (\<lambda>rest.
       Inr ((name, case np_nanmean column of None \<Rightarrow> Placeholder | Some v \<Rightarrow> Mean v)
            # rest)))"

text \<open>
  \<^verbatim>\<open>metrics_template.format(*metrics_variables)\<close>: the template has \<^verbatim>\<open>{}: {:f}\<close> for a
  mean and \<^verbatim>\<open>{}: {}\<close> for the placeholder, with \<^verbatim>\<open>, \<close> in front of every entry but
  the first.
\<close>

fun render_value :: "metric_value \<Rightarrow> string" where
  "render_value (Mean v) = format_f 6 v"
| "render_value Placeholder = ''--''"

fun format_metrics :: "nat \<Rightarrow> (string \<times> metric_value) list \<Rightarrow> string" where
  "format_metrics idx [] = []"
| "format_metrics idx ((name, value) # rest) =
     (if 0 < idx then '', '' else []) @ name @ '': '' @ render_value value
     @ format_metrics (Suc idx) rest"

text \<open>The dictionary \<^verbatim>\<open>variables\<close> of \<^verbatim>\<open>on_episode_end\<close>.\<close>

record variables =
  v_episode :: int
  v_duration :: pyfloat
  v_steps :: nat
  v_sps :: pyfloat
  v_episode_reward :: pyfloat
  v_reward :: pyfloat
  v_reward_min :: pyfloat
  v_reward_max :: pyfloat
  v_action :: pyfloat
  v_action_min :: pyfloat
  v_action_max :: pyfloat
  v_obs :: pyfloat
  v_obs_min :: pyfloat
  v_obs_max :: pyfloat
  v_metrics :: string

text \<open>
  \<^verbatim>\<open>float(steps) / duration\<close> on Python floats raises \<^verbatim>\<open>ZeroDivisionError\<close> when the
  duration is zero.
\<close>

definition steps_per_second :: "nat \<Rightarrow> rat \<Rightarrow> error + pyfloat" where
  "steps_per_second steps duration =
     (if duration = 0 then Inl ZeroDivisionError else Inr (Fin (of_nat steps / duration)))"

text \<open>
  \<^verbatim>\<open>np.mean(xs)\<close>, \<^verbatim>\<open>np.min(xs)\<close>, \<^verbatim>\<open>np.max(xs)\<close>, three entries of \<^verbatim>\<open>variables\<close> that
  follow each other for the rewards, the actions and the observations.
\<close>

definition np_stats :: "pyfloat list \<Rightarrow> error + pyfloat \<times> pyfloat \<times> pyfloat" where
  "np_stats xs =
     and_then (np_min xs) (\<lambda>lo.
     and_then (np_max xs) (\<lambda>hi.
       Inr (np_mean xs, lo, hi)))"

text \<open>
  Everything \<^verbatim>\<open>on_episode_end\<close> computes before it prints, in the order of the source:
  duration, steps, the metrics, then the entries of \<^verbatim>\<open>variables\<close> from top to bottom.
\<close>

definition episode_variables ::
    "train_episode_logger \<Rightarrow> int \<Rightarrow> rat \<Rightarrow> error + variables" where
  "episode_variables s episode now =
     and_then (lookup (episode_start s) episode) (\<lambda>start.
     and_then (lookup (observations s) episode) (\<lambda>os.
     and_then (lookup (metrics s) episode) (\<lambda>ms.
     and_then (attribute (metrics_names s)) (\<lambda>names.
     and_then (metrics_loop ms 0 names) (\<lambda>metrics_variables.
     and_then (steps_per_second (length os) (now - start)) (\<lambda>sps.
     and_then (lookup (rewards s) episode) (\<lambda>rs.
     and_then (np_stats rs) (\<lambda>reward.
     and_then (lookup (actions s) episode) (\<lambda>acts.
     and_then (np_stats acts) (\<lambda>action.
     and_then (np_elements os) (\<lambda>elements.
     and_then (np_stats elements) (\<lambda>obs.
       Inr \<lparr>v_episode = episode + 1,
            v_duration = Fin (now - start),
            v_steps = length os,
            v_sps = sps,
            v_episode_reward = np_sum rs,
            v_reward = fst reward,
            v_reward_min = fst (snd reward),
            v_reward_max = snd (snd reward),
            v_action = fst action,
            v_action_min = fst (snd action),
            v_action_max = snd (snd action),
            v_obs = fst obs,
            v_obs_min = fst (snd obs),
            v_obs_max = snd (snd obs),
            v_metrics = format_metrics 0 metrics_variables\<rparr>))))))))))))"

text \<open>\<^verbatim>\<open>template.format(**variables)\<close>\<close>

definition summary_line :: "variables \<Rightarrow> string" where
  "summary_line v =
     ''Episode '' @ str_int (v_episode v)
     @ '': '' @ format_f 3 (v_duration v)
     @ ''s, steps: '' @ str_int (int (v_steps v))
     @ '', steps per second: '' @ format_f 0 (v_sps v)
     @ '', episode reward: '' @ format_f 3 (v_episode_reward v)
     @ '', reward: '' @ format_f 3 (v_reward v)
     @ '' ['' @ format_f 3 (v_reward_min v) @ '', '' @ format_f 3 (v_reward_max v)
     @ ''], action: '' @ format_f 3 (v_action v)
     @ '' ['' @ format_f 3 (v_action_min v) @ '', '' @ format_f 3 (v_action_max v)
     @ ''], observations: '' @ format_f 3 (v_obs v)
     @ '' ['' @ format_f 3 (v_obs_min v) @ '', '' @ format_f 3 (v_obs_max v)
     @ ''], '' @ v_metrics v"

text \<open>
  \<^verbatim>\<open>on_episode_end\<close>: the summary is computed and printed, then the five entries of the
  episode are deleted. When the computation raises, nothing is printed and nothing is
  deleted.
\<close>

definition tel_on_episode_end ::
    "train_episode_logger \<Rightarrow> int \<Rightarrow> rat \<Rightarrow> train_episode_logger outcome" where
  "tel_on_episode_end s episode now =
     (case episode_variables s episode now of
        Inl e \<Rightarrow> Raises e s
      | Inr v \<Rightarrow>
          Returns (s\<lparr>stdout := stdout s @ [summary_line v],
                     episode_start := (episode_start s)(episode := None),
                     observations := (observations s)(episode := None),
                     rewards := (rewards s)(episode := None),
                     actions := (actions s)(episode := None),
                     metrics := (metrics s)(episode := None)\<rparr>))"

text \<open>
  The three calls of an episode, with their arguments, and a sequence of them made on one
  logger. After a call that raised, the logger is in the state that call left behind.
\<close>

datatype event = Begin int rat | Step int step_logs | End int rat

fun exec :: "event \<Rightarrow> train_episode_logger \<Rightarrow> train_episode_logger outcome" where
  "exec (Begin episode now) s = Returns (tel_on_episode_begin s episode now)"
| "exec (Step step logs) s = tel_on_step_end s step logs"
| "exec (End episode now) s = tel_on_episode_end s episode now"

fun run :: "train_episode_logger \<Rightarrow> event list \<Rightarrow> train_episode_logger" where
  "run s [] = s"
| "run s (ev # evs) = run (state_of (exec ev s)) evs"




text \<open>None of the five dictionaries has an entry for the episode.\<close>

definition buffers_absent :: "train_episode_logger \<Rightarrow> int \<Rightarrow> bool" where
  "buffers_absent s e =
     (episode_start s e = None \<and> observations s e = None \<and> rewards s e = None
      \<and> actions s e = None \<and> metrics s e = None)"

section \<open>Observing outcomes and single episodes\<close>

fun is_returns :: "'s outcome \<Rightarrow> bool" where
  "is_returns (Returns s) = True"
| "is_returns (Raises e s) = False"

fun raised :: "'s outcome \<Rightarrow> error option" where
  "raised (Returns s) = None"
| "raised (Raises e s) = Some e"

text \<open>
  What the logger holds about one episode: its entry in each of the five dictionaries,
  and the metric names.
\<close>

definition view :: "train_episode_logger \<Rightarrow> int \<Rightarrow>
    rat option \<times> pyfloat list list option \<times> pyfloat list option \<times> pyfloat list option
    \<times> pyfloat list list option \<times> string list option" where
  "view s e =
     (episode_start s e, observations s e, rewards s e, actions s e, metrics s e,
      metrics_names s)"


section \<open>Concrete runs of the episode logger\<close>

text \<open>A logger after \<^verbatim>\<open>on_train_begin\<close> at time 0, for a model with two metrics.\<close>

definition trained :: train_episode_logger where
  "trained = tel_on_train_begin tel_init 0 [''loss'', ''mae''] None (Some 100)"

text \<open>
  The log of a step of episode \<open>e\<close> with reward \<open>r\<close>: an observation of two arrays, action
  0, a loss equal to the reward and a second metric that is NaN.
\<close>

definition step_log :: "int \<Rightarrow> rat \<Rightarrow> step_logs" where
  "step_log e r =
     \<lparr>log_episode = Some e,
      log_observation = Some [[Fin r], [Fin (r + 1)]],
      log_reward = Some (Fin r),
      log_action = Some (Fin 0),
      log_metrics = Some [Fin r, NaN]\<rparr>"

text \<open>Episode 0 begun at time 10, with three steps of rewards 1, 2 and 3.\<close>

definition three_steps :: train_episode_logger where
  "three_steps =
     run trained [Begin 0 10, Step 0 (step_log 0 1), Step 1 (step_log 0 2),
       Step 2 (step_log 0 3)]"


section \<open>TrainIntervalLogger\<close>

text \<open>
  The Keras progress bar is outside this file; the model keeps its target and the calls
  of \<^verbatim>\<open>update(current, values)\<close> made on it.
\<close>

record progbar =
  target :: int
  updates :: "(int \<times> (string \<times> pyfloat) list) list"

text \<open>
  What the interval logger prints: a line of text, or the interval marker
  \<^verbatim>\<open>'Interval {} ({} steps performed)'\<close> with its two arguments. The first argument is
  \<^verbatim>\<open>self.steps / self.interval + 1\<close>; the marker is printed only when the interval
  divides the steps, so the quotient is a whole number whichever division \<^verbatim>\<open>/\<close> is.
\<close>

datatype printed = Text string | Interval_marker int int

text \<open>
  The object. \<open>window\<close> is the attribute \<^verbatim>\<open>self.metrics\<close>, the metric vectors of the
  running interval; the other attributes have the names of the source, the ones shared
  with the episode logger with \<open>il\<close> in front.
\<close>

record train_interval_logger =
  interval :: int
  steps :: int
  interval_start :: rat
  progbar :: progbar
  window :: "pyfloat list list"
  il_train_start :: "rat option"
  il_metrics_names :: "string list option"
  il_stdout :: "printed list"

text \<open>\<^verbatim>\<open>reset\<close>\<close>

definition reset :: "train_interval_logger \<Rightarrow> rat \<Rightarrow> train_interval_logger" where
  "reset s now =
     s\<lparr>interval_start := now,
       progbar := \<lparr>target = interval s, updates = []\<rparr>,
       window := []\<rparr>"

text \<open>\<^verbatim>\<open>__init__(interval)\<close>; the default of the source is 10000.\<close>

definition til_init :: "int \<Rightarrow> rat \<Rightarrow> train_interval_logger" where
  "til_init n now =
     reset \<lparr>interval = n, steps = 0, interval_start = now,
            progbar = \<lparr>target = n, updates = []\<rparr>, window = [],
            il_train_start = None, il_metrics_names = None, il_stdout = []\<rparr> now"

text \<open>\<^verbatim>\<open>on_train_begin\<close> and \<^verbatim>\<open>on_train_end\<close>, as in the episode logger.\<close>

definition til_on_train_begin ::
    "train_interval_logger \<Rightarrow> rat \<Rightarrow> string list \<Rightarrow> int option \<Rightarrow> int option
     \<Rightarrow> train_interval_logger" where
  "til_on_train_begin s now names nb_episodes nb_steps =
     s\<lparr>il_train_start := Some now, il_metrics_names := Some names,
       il_stdout := il_stdout s @ [Text (training_message nb_episodes nb_steps)]\<rparr>"

definition til_on_train_end ::
    "train_interval_logger \<Rightarrow> rat \<Rightarrow> train_interval_logger outcome" where
  "til_on_train_end s now =
     (case il_train_start s of
        None \<Rightarrow> Raises AttributeError s
      | Some t \<Rightarrow>
          Returns (s\<lparr>il_stdout := il_stdout s
            @ [Text (''done, took '' @ format_f 3 (Fin (now - t)) @ '' seconds'')]\<rparr>))"

text \<open>
  \<^verbatim>\<open>on_step_begin\<close>. The remainder of integers raises \<^verbatim>\<open>ZeroDivisionError\<close> for an
  interval of zero; Python's remainder and quotient of integers round down, as \<open>mod\<close>
  and \<open>div\<close> do.
\<close>

definition til_on_step_begin ::
    "train_interval_logger \<Rightarrow> int \<Rightarrow> rat \<Rightarrow> train_interval_logger outcome" where
  "til_on_step_begin s step now =
     (if interval s = 0 then Raises ZeroDivisionError s
      else if steps s mod interval s = 0
      then Returns ((reset s now)\<lparr>il_stdout := il_stdout s
              @ [Interval_marker (steps s div interval s + 1) (steps s)]\<rparr>)
      else Returns s)"






section \<open>Concrete runs of the interval logger\<close>

text \<open>A logger with a window of 10 steps, for a model with two metrics.\<close>

definition ten :: train_interval_logger where
  "ten = til_on_train_begin (til_init 10 0) 0 [''loss'', ''mae''] None None"



section \<open>Properties of the dispatch list\<close>

lemma dispatch_event_eq:
  "dispatch_event k cbs idx logs w = dispatch (new_name k) (legacy_name k) cbs idx logs w"
  by (cases k)
     (simp_all add: cl_on_episode_begin_def cl_on_episode_end_def
        cl_on_step_begin_def cl_on_step_end_def)






lemma dispatch_append:
  "dispatch new legacy (pre @ post) idx logs w =
     (case dispatch new legacy pre idx logs w of
        (calls, Inl e) \<Rightarrow> (calls, Inl e)
      | (calls, Inr w') \<Rightarrow>
          (case dispatch new legacy post idx logs w' of
             (calls', r) \<Rightarrow> (calls @ calls', r)))"
  by (induction pre arbitrary: w) (auto split: prod.splits sum.splits)

lemma dispatch_one_neither:
  "\<not> callable (cb new) \<Longrightarrow> \<not> callable (cb legacy) \<Longrightarrow>
   dispatch_one new legacy cb idx logs w =
     ([], Inl (if cb legacy = Absent then AttributeError else TypeError))"
  by (cases "cb legacy") (simp_all add: dispatch_one_def)

lemma dispatch_neither:
  assumes "\<not> callable (cb new)" and "\<not> callable (cb legacy)"
  shows "dispatch new legacy (pre @ cb # post) idx logs w =
     (case dispatch new legacy pre idx logs w of
        (calls, Inl e) \<Rightarrow> (calls, Inl e)
      | (calls, Inr w') \<Rightarrow>
          (calls, Inl (if cb legacy = Absent then AttributeError else TypeError)))"
  by (simp add: dispatch_append dispatch_one_neither [OF assms]
      split: prod.splits sum.splits)

text \<open>
  Claim C2. A callback of the list that has neither a callable new-convention method nor
  a callable legacy-convention method for the event is never skipped: a dispatch over a
  list that holds it does not return, it raises. When the callbacks in front of it return,
  the exception is the one of the failed legacy lookup (\<^verbatim>\<open>AttributeError\<close> for a missing
  attribute, \<^verbatim>\<open>TypeError\<close> for one that is not callable), no method of that callback is
  entered and no callback behind it is reached.
\<close>

theorem dispatch_neither_raises:
  assumes "\<not> callable (callback (new_name k))"
    and "\<not> callable (callback (legacy_name k))"
  shows "(\<exists>calls e. dispatch_event k (pre @ callback # post) idx logs w = (calls, Inl e))
    \<and> (\<forall>calls w'. dispatch_event k pre idx logs w = (calls, Inr w') \<longrightarrow>
          dispatch_event k (pre @ callback # post) idx logs w =
            (calls, Inl (if callback (legacy_name k) = Absent
                         then AttributeError else TypeError)))"
  unfolding dispatch_event_eq
  by (auto simp: dispatch_neither [OF assms] split: prod.splits sum.splits)

theorem dispatch_neither_raises_witness:
  "\<not> callable (bare (new_name Step_end)) \<and> \<not> callable (bare (legacy_name Step_end))
   \<and> dispatch_event Step_end [new_style, bare, keras_style] 3 42 0 =
       ([(On_step_end, 3, 42)], Inl AttributeError)"
proof -
  have a: "\<not> callable (bare (new_name Step_end))"
    and b: "\<not> callable (bare (legacy_name Step_end))"
    by (simp_all add: bare_def)
  have pre: "dispatch_event Step_end [new_style] 3 42 0 = ([(On_step_end, 3, 42)], Inr 1)"
    by (simp add: cl_on_step_end_def dispatch_one_def new_style_def counting_def)
  from dispatch_neither_raises [OF a b, of "[new_style]" "[keras_style]" 3 42 0] pre
  have "dispatch_event Step_end ([new_style] @ bare # [keras_style]) 3 42 0 =
       ([(On_step_end, 3, 42)], Inl (if bare (legacy_name Step_end) = Absent
                         then AttributeError else TypeError))"
    by blast
  then show ?thesis using a b by (simp add: bare_def)
qed

section \<open>Properties of the episode logger\<close>

lemma and_then_Inr: "and_then (Inr x) f = f x"
  by (simp add: and_then_def)

lemma and_then_Inl: "and_then (Inl e) f = Inl e"
  by (simp add: and_then_def)

lemma and_then_weak_cong: "m = m' \<Longrightarrow> and_then m f = and_then m' f"
  by simp

lemma and_then_eq_Inr: "and_then m f = Inr y \<longleftrightarrow> (\<exists>x. m = Inr x \<and> f x = Inr y)"
  by (cases m) (simp_all add: and_then_def)

lemma lookup_eq_Inr: "lookup d k = Inr v \<longleftrightarrow> d k = Some v"
  by (simp add: lookup_def split: option.splits)

lemma attribute_eq_Inr: "attribute a = Inr v \<longleftrightarrow> a = Some v"
  by (simp add: attribute_def split: option.splits)

lemma state_of_then_call:
  "state_of (then_call a f) = (case a of Raises e s \<Rightarrow> s | Returns s \<Rightarrow> state_of (f s))"
  by (cases a) simp_all

subsection \<open>What a call reads and what it changes\<close>


lemma episode_variables_InrD:
  assumes "episode_variables s e now = Inr v"
  shows "\<exists>start os ms names entries sps rs reward acts action elements obs.
    view s e = (Some start, Some os, Some rs, Some acts, Some ms, Some names)
    \<and> metrics_loop ms 0 names = Inr entries
    \<and> steps_per_second (length os) (now - start) = Inr sps
    \<and> np_stats rs = Inr reward \<and> np_stats acts = Inr action
    \<and> np_elements os = Inr elements \<and> np_stats elements = Inr obs
    \<and> v = \<lparr>v_episode = e + 1,
            v_duration = Fin (now - start),
            v_steps = length os,
            v_sps = sps,
            v_episode_reward = np_sum rs,
            v_reward = fst reward,
            v_reward_min = fst (snd reward),
            v_reward_max = snd (snd reward),
            v_action = fst action,
            v_action_min = fst (snd action),
            v_action_max = snd (snd action),
            v_obs = fst obs,
            v_obs_min = fst (snd obs),
            v_obs_max = snd (snd obs),
            v_metrics = format_metrics 0 entries\<rparr>"
  using assms
  apply (simp only: episode_variables_def and_then_eq_Inr lookup_eq_Inr attribute_eq_Inr view_def)
  apply (elim exE conjE)
  apply (simp only: sum.inject prod.inject option.inject simp_thms)
  apply blast
  done

lemma episode_end_raises:
  "episode_variables s e now = Inl err \<Longrightarrow> tel_on_episode_end s e now = Raises err s"
  by (simp add: tel_on_episode_end_def)


lemma episode_end_is_returns:
  "is_returns (tel_on_episode_end s e now) \<longleftrightarrow> (\<exists>v. episode_variables s e now = Inr v)"
  by (cases "episode_variables s e now") (simp_all add: tel_on_episode_end_def)


lemma episode_end_unchanged:
  "\<not> is_returns (tel_on_episode_end s e now) \<Longrightarrow>
   state_of (tel_on_episode_end s e now) = s"
  by (cases "episode_variables s e now") (simp_all add: tel_on_episode_end_def)


























lemma init_absent: "buffers_absent tel_init e"
  by (simp add: buffers_absent_def tel_init_def)

lemma train_begin_absent:
  "buffers_absent s e \<Longrightarrow> buffers_absent (tel_on_train_begin s now names m n) e"
  by (simp add: buffers_absent_def tel_on_train_begin_def)

subsection \<open>The concrete runs\<close>

lemmas step_defs = tel_on_step_end_def append_observation_def append_reward_def
  append_action_def append_metrics_def np_concatenate_def tel_on_episode_begin_def

lemma three_steps_view:
  "view three_steps 0 =
     (Some 10, Some [[Fin 1, Fin 2], [Fin 2, Fin 3], [Fin 3, Fin 4]],
      Some [Fin 1, Fin 2, Fin 3], Some [Fin 0, Fin 0, Fin 0],
      Some [[Fin 1, NaN], [Fin 2, NaN], [Fin 3, NaN]], Some [''loss'', ''mae''])"
  by (simp add: view_def three_steps_def trained_def tel_on_train_begin_def tel_init_def
      step_log_def step_defs)


lemma three_steps_metrics:
  "metrics_loop [[Fin 1, NaN], [Fin 2, NaN], [Fin 3, NaN]] 0 [''loss'', ''mae''] =
     Inr [(''loss'', Mean (Fin 2)), (''mae'', Placeholder)]"
  by (simp add: np_column_def column_def is_2d_def np_nanmean_def and_then_Inr)

lemma three_steps_text:
  "format_metrics 0 [(''loss'', Mean (Fin 2)), (''mae'', Placeholder)] =
     ''loss: 2.000000, mae: --''"
  by code_simp

lemma three_steps_variables:
  "episode_variables three_steps 0 12 =
     Inr \<lparr>v_episode = 1, v_duration = Fin 2, v_steps = 3, v_sps = Fin (3 / 2),
        v_episode_reward = Fin 6, v_reward = Fin 2, v_reward_min = Fin 1,
        v_reward_max = Fin 3, v_action = Fin 0, v_action_min = Fin 0,
        v_action_max = Fin 0, v_obs = Fin (5 / 2), v_obs_min = Fin 1,
        v_obs_max = Fin 4, v_metrics = ''loss: 2.000000, mae: --''\<rparr>"
  using three_steps_view
  apply (simp add: view_def)
  apply (simp only: episode_variables_def lookup_def attribute_def option.case and_then_Inr
      three_steps_metrics three_steps_text)
  apply (simp add: and_then_Inr and_then_Inl steps_per_second_def np_stats_def
      np_min_def np_max_def np_sum_def np_mean_def np_elements_def is_2d_def
      cong: and_then_weak_cong)
  done

lemma three_steps_line:
  "summary_line \<lparr>v_episode = 1, v_duration = Fin 2, v_steps = 3, v_sps = Fin (3 / 2),
        v_episode_reward = Fin 6, v_reward = Fin 2, v_reward_min = Fin 1,
        v_reward_max = Fin 3, v_action = Fin 0, v_action_min = Fin 0,
        v_action_max = Fin 0, v_obs = Fin (5 / 2), v_obs_min = Fin 1,
        v_obs_max = Fin 4, v_metrics = ''loss: 2.000000, mae: --''\<rparr> =
   ''Episode 1: 2.000s, steps: 3, steps per second: 2, episode reward: 6.000, reward: 2.000 [1.000, 3.000], action: 0.000 [0.000, 0.000], observations: 2.500 [1.000, 4.000], loss: 2.000000, mae: --''"
  by code_simp

lemma three_steps_zero_duration:
  "episode_variables three_steps 0 10 = Inl ZeroDivisionError"
  using three_steps_view
  apply (simp add: view_def)
  apply (simp only: episode_variables_def lookup_def attribute_def option.case and_then_Inr
      three_steps_metrics)
  apply (simp add: and_then_Inl steps_per_second_def)
  done




subsection \<open>Formatting\<close>






lemma steps_per_second_InrD:
  "steps_per_second n d = Inr sps \<Longrightarrow> d \<noteq> 0 \<and> sps = Fin (of_nat n / d)"
  by (simp add: steps_per_second_def split: if_splits)






lemma episode_variables_sps:
  assumes "episode_variables s e now = Inr v" and "episode_start s e = Some start"
  shows "steps_per_second (v_steps v) (now - start) = Inr (v_sps v)"
proof -
  from episode_variables_InrD [OF assms(1)]
  obtain start' os ms names entries sps rs reward acts action elements obs
    where view: "view s e = (Some start', Some os, Some rs, Some acts, Some ms, Some names)"
      and sps: "steps_per_second (length os) (now - start') = Inr sps"
      and v: "v = \<lparr>v_episode = e + 1,
            v_duration = Fin (now - start'),
            v_steps = length os,
            v_sps = sps,
            v_episode_reward = np_sum rs,
            v_reward = fst reward,
            v_reward_min = fst (snd reward),
            v_reward_max = snd (snd reward),
            v_action = fst action,
            v_action_min = fst (snd action),
            v_action_max = snd (snd action),
            v_obs = fst obs,
            v_obs_min = fst (snd obs),
            v_obs_max = snd (snd obs),
            v_metrics = format_metrics 0 entries\<rparr>"
    by blast
  from view assms(2) have "start' = start" by (simp add: view_def)
  with sps v show ?thesis by simp
qed

subsection \<open>The claims about the episode logger\<close>





text \<open>
  Claim C7, as the code has it. The division \<^verbatim>\<open>float(steps) / duration\<close> has no guard.
  An episode-end at the very time of the episode-begin does not return, prints nothing
  and leaves the logger as it was; the exception is \<^verbatim>\<open>ZeroDivisionError\<close> whenever the
  metrics before the division could be computed. When the episode-end computes a summary,
  the duration was not zero and the field is the number of steps divided by the duration.
\<close>

theorem zero_duration_raises:
  "(episode_start s e = Some now \<longrightarrow>
      \<not> is_returns (tel_on_episode_end s e now)
      \<and> state_of (tel_on_episode_end s e now) = s)
   \<and> (episode_start s e = Some now \<and> observations s e = Some os \<and> metrics s e = Some ms
       \<and> metrics_names s = Some names \<and> metrics_loop ms 0 names = Inr entries \<longrightarrow>
      tel_on_episode_end s e now = Raises ZeroDivisionError s)
   \<and> (episode_variables s e now = Inr v \<and> episode_start s e = Some start \<longrightarrow>
      now - start \<noteq> 0 \<and> v_sps v = Fin (of_nat (v_steps v) / (now - start)))"
proof (intro conjI impI)
  assume start: "episode_start s e = Some now"
  have "episode_variables s e now \<noteq> Inr v" for v
  proof
    assume "episode_variables s e now = Inr v"
    from episode_variables_sps [OF this start]
    show False by (simp add: steps_per_second_def)
  qed
  then show "\<not> is_returns (tel_on_episode_end s e now)"
    by (simp add: episode_end_is_returns)
  then show "state_of (tel_on_episode_end s e now) = s"
    by (rule episode_end_unchanged)
next
  assume "episode_start s e = Some now \<and> observations s e = Some os \<and> metrics s e = Some ms
       \<and> metrics_names s = Some names \<and> metrics_loop ms 0 names = Inr entries"
  then have "episode_variables s e now = Inl ZeroDivisionError"
    by (simp add: episode_variables_def lookup_def attribute_def and_then_Inr and_then_Inl
        steps_per_second_def cong: and_then_weak_cong)
  then show "tel_on_episode_end s e now = Raises ZeroDivisionError s"
    by (rule episode_end_raises)
next
  assume a: "episode_variables s e now = Inr v \<and> episode_start s e = Some start"
  then have "steps_per_second (v_steps v) (now - start) = Inr (v_sps v)"
    using episode_variables_sps by blast
  from steps_per_second_InrD [OF this]
  show "now - start \<noteq> 0" and "v_sps v = Fin (of_nat (v_steps v) / (now - start))"
    by simp_all
qed

theorem zero_duration_raises_witness:
  "episode_start three_steps 0 = Some 10
   \<and> \<not> is_returns (tel_on_episode_end three_steps 0 10)
   \<and> state_of (tel_on_episode_end three_steps 0 10) = three_steps
   \<and> tel_on_episode_end three_steps 0 10 = Raises ZeroDivisionError three_steps
   \<and> (\<exists>v. episode_variables three_steps 0 12 = Inr v \<and> v_sps v = Fin (3 / 2))"
proof -
  have view: "episode_start three_steps 0 = Some 10
      \<and> observations three_steps 0 = Some [[Fin 1, Fin 2], [Fin 2, Fin 3], [Fin 3, Fin 4]]
      \<and> metrics three_steps 0 = Some [[Fin 1, NaN], [Fin 2, NaN], [Fin 3, NaN]]
      \<and> metrics_names three_steps = Some [''loss'', ''mae'']"
    using three_steps_view by (simp add: view_def)
  from zero_duration_raises [of three_steps 0 10
      "[[Fin 1, Fin 2], [Fin 2, Fin 3], [Fin 3, Fin 4]]"
      "[[Fin 1, NaN], [Fin 2, NaN], [Fin 3, NaN]]" "[''loss'', ''mae'']"
      "[(''loss'', Mean (Fin 2)), (''mae'', Placeholder)]"]
    view three_steps_metrics
  have "\<not> is_returns (tel_on_episode_end three_steps 0 10)
   \<and> state_of (tel_on_episode_end three_steps 0 10) = three_steps
   \<and> tel_on_episode_end three_steps 0 10 = Raises ZeroDivisionError three_steps"
    by blast
  with view three_steps_variables show ?thesis by simp
qed

text \<open>
  The claim as it is written fails: with three steps recorded and the episode-end at the
  time of the episode-begin, the call raises \<^verbatim>\<open>ZeroDivisionError\<close>, and the only line
  on the output is still the one of \<^verbatim>\<open>on_train_begin\<close>.
\<close>

theorem zero_duration_counterexample:
  "raised (tel_on_episode_end three_steps 0 10) = Some ZeroDivisionError
   \<and> stdout (state_of (tel_on_episode_end three_steps 0 10)) = [''Training for 100 steps ...'']"
proof -
  have "tel_on_episode_end three_steps 0 10 = Raises ZeroDivisionError three_steps"
    by (rule episode_end_raises) (rule three_steps_zero_duration)
  moreover have "stdout three_steps = [''Training for 100 steps ...'']"
    by (simp add: three_steps_def trained_def tel_on_train_begin_def tel_init_def
        step_log_def step_defs training_message_def, code_simp)
  ultimately show ?thesis by simp
qed









section \<open>Properties of the interval logger\<close>

text \<open>
  Claim C5. For a window size that is not zero, a step-begin resets the window exactly
  when the step counter is a multiple of the window size: then the start time of the
  interval is the time of the call, the progress bar is a new one with the window size
  as its target, the window of metric vectors is empty, and the interval marker is
  printed with the number of the interval and the steps so far; otherwise the call leaves
  the logger as it is. With a window size of 10 the counters 0 and 10 reset and the
  counter 9 does not.
\<close>

theorem reset_on_multiples:
  assumes "interval s \<noteq> 0"
  shows "(interval s dvd steps s \<longrightarrow>
      til_on_step_begin s step now =
        Returns (s\<lparr>interval_start := now,
                   progbar := \<lparr>target = interval s, updates = []\<rparr>,
                   window := [],
                   il_stdout := il_stdout s
                     @ [Interval_marker (steps s div interval s + 1) (steps s)]\<rparr>))
    \<and> (\<not> interval s dvd steps s \<longrightarrow> til_on_step_begin s step now = Returns s)"
  using assms by (simp add: til_on_step_begin_def reset_def mod_eq_0_iff_dvd)

lemma ten_fields: "interval ten = 10" "steps ten = 0"
  by (simp_all add: ten_def til_on_train_begin_def til_init_def reset_def)

theorem reset_on_multiples_witness:
  "interval ten = 10 \<and> steps ten = 0
   \<and> til_on_step_begin ten 0 3 =
        Returns (ten\<lparr>interval_start := 3, progbar := \<lparr>target = 10, updates = []\<rparr>,
                   window := [], il_stdout := il_stdout ten @ [Interval_marker 1 0]\<rparr>)
   \<and> til_on_step_begin (ten\<lparr>steps := 10\<rparr>) 10 3 =
        Returns (ten\<lparr>steps := 10, interval_start := 3,
                   progbar := \<lparr>target = 10, updates = []\<rparr>,
                   window := [], il_stdout := il_stdout ten @ [Interval_marker 2 10]\<rparr>)
   \<and> til_on_step_begin (ten\<lparr>steps := 9\<rparr>) 9 3 = Returns (ten\<lparr>steps := 9\<rparr>)"
  using reset_on_multiples [of ten 0 3] reset_on_multiples [of "ten\<lparr>steps := 10\<rparr>" 10 3]
    reset_on_multiples [of "ten\<lparr>steps := 9\<rparr>" 9 3]
  by (simp add: ten_fields)






end
